theory Spec2Isabelle
  imports Main
begin

section \<open>Go runtime and standard library, as far as the handlers use them\<close>

text \<open>
  Go strings are byte sequences; \<^typ>\<open>string\<close> is a list of bytes as well. A run-time
  panic of the Go program (an index or a slice bound out of range) is a value of
  \<open>go_panic\<close>, returned on the left of a sum.
\<close>

datatype go_panic = IndexOutOfRange | SliceBoundsOutOfRange

definition TAB :: char where
  "TAB = CHR 0x09"

definition NL :: char where
  "NL = CHR 0x0A"

fun hasPrefix :: "string \<Rightarrow> string \<Rightarrow> bool" where
  "hasPrefix s [] = True"
| "hasPrefix [] (p # ps) = False"
| "hasPrefix (c # cs) (p # ps) = (c = p \<and> hasPrefix cs ps)"

text \<open>\<open>strings.Index\<close>: the byte offset of the first occurrence of \<open>sub\<close>, or \<open>-1\<close>.\<close>

fun indexFrom :: "nat \<Rightarrow> string \<Rightarrow> string \<Rightarrow> int" where
  "indexFrom k [] sub = (if sub = [] then int k else - 1)"
| "indexFrom k (c # cs) sub =
     (if hasPrefix (c # cs) sub then int k else indexFrom (Suc k) cs sub)"

definition strings_Index :: "string \<Rightarrow> string \<Rightarrow> int" where
  "strings_Index s sub = indexFrom 0 s sub"

definition strings_Contains :: "string \<Rightarrow> string \<Rightarrow> bool" where
  "strings_Contains s sub = (0 \<le> strings_Index s sub)"

fun strings_Join :: "string list \<Rightarrow> string \<Rightarrow> string" where
  "strings_Join [] sep = []"
| "strings_Join [e] sep = e"
| "strings_Join (e # f # es) sep = e @ sep @ strings_Join (f # es) sep"

text \<open>
  \<open>strconv.Atoi\<close> on a 64-bit platform: an optional sign, then one or more decimal
  digits and nothing else; a value outside the range of \<open>int\<close> is an error too. An error
  is \<open>None\<close>.
\<close>

definition isDigit :: "char \<Rightarrow> bool" where
  "isDigit c = (48 \<le> (of_char c :: int) \<and> (of_char c :: int) \<le> 57)"

definition digitVal :: "char \<Rightarrow> int" where
  "digitVal c = of_char c - 48"

fun parseDigits :: "int \<Rightarrow> string \<Rightarrow> int option" where
  "parseDigits acc [] = Some acc"
| "parseDigits acc (c # cs) =
     (if isDigit c then parseDigits (acc * 10 + digitVal c) cs else None)"

definition strconv_Atoi :: "string \<Rightarrow> int option" where
  "strconv_Atoi s =
     (case s of
        [] \<Rightarrow> None
      | c # cs \<Rightarrow>
          (let neg = (c = CHR ''-'');
               ds = (if c = CHR ''-'' then cs else if c = CHR ''+'' then cs else s)
           in if ds = [] then None
              else (case parseDigits 0 ds of
                      None \<Rightarrow> None
                    | Some n \<Rightarrow>
                        (if neg then (if 2 ^ 63 < n then None else Some (- n))
                         else (if 2 ^ 63 \<le> n then None else Some n)))))"

text \<open>Arithmetic on Go's \<open>int\<close> wraps around at 64 bits.\<close>

definition wrap64 :: "int \<Rightarrow> int" where
  "wrap64 x = (x + 2 ^ 63) mod 2 ^ 64 - 2 ^ 63"

text \<open>
  \<open>path/filepath\<close> on a system whose separator is the slash: \<open>Clean\<close> drops empty and
  \<open>.\<close> elements and resolves \<open>..\<close> lexically, \<open>Join\<close> cleans the elements joined by a
  slash, ignoring leading empty ones, \<open>ToSlash\<close> changes nothing there, and \<open>Base\<close> is
  the last element.
\<close>

fun splitOn :: "char \<Rightarrow> string \<Rightarrow> string list" where
  "splitOn sep [] = [[]]"
| "splitOn sep (c # cs) =
     (if c = sep then [] # splitOn sep cs
      else (case splitOn sep cs of
              [] \<Rightarrow> [[c]]
            | e # es \<Rightarrow> (c # e) # es))"

fun cleanElems :: "bool \<Rightarrow> string list \<Rightarrow> string list \<Rightarrow> string list" where
  "cleanElems rooted out [] = out"
| "cleanElems rooted out (e # es) =
     (if e = [] then cleanElems rooted out es
      else if e = ''.'' then cleanElems rooted out es
      else if e = ''..'' then
        (if out \<noteq> [] \<and> last out \<noteq> ''..'' then cleanElems rooted (butlast out) es
         else if rooted then cleanElems rooted out es
         else cleanElems rooted (out @ [''..'']) es)
      else cleanElems rooted (out @ [e]) es)"

definition filepath_Clean :: "string \<Rightarrow> string" where
  "filepath_Clean path =
     (case path of
        [] \<Rightarrow> ''.''
      | c # _ \<Rightarrow>
          (let rooted = (c = CHR ''/'');
               out = cleanElems rooted [] (splitOn (CHR ''/'') path)
           in if rooted then CHR ''/'' # strings_Join out ''/''
              else if out = [] then ''.''
              else strings_Join out ''/''))"

definition filepath_Join :: "string list \<Rightarrow> string" where
  "filepath_Join elem =
     (case dropWhile (\<lambda>e. e = []) elem of
        [] \<Rightarrow> []
      | e # es \<Rightarrow> filepath_Clean (strings_Join (e # es) ''/''))"

definition filepath_ToSlash :: "string \<Rightarrow> string" where
  "filepath_ToSlash path = path"

fun stripTrailingSlashes :: "string \<Rightarrow> string" where
  "stripTrailingSlashes s =
     rev (dropWhile (\<lambda>c. c = CHR ''/'') (rev s))"

definition filepath_Base :: "string \<Rightarrow> string" where
  "filepath_Base path =
     (if path = [] then ''.''
      else (let p = stripTrailingSlashes path;
                e = rev (takeWhile (\<lambda>c. c \<noteq> CHR ''/'') (rev p))
            in if e = [] then ''/'' else e))"

section \<open>Lint records and the lint process of the build handler\<close>

text \<open>
  Modelled from the spec: the struct \<open>Lint\<close> that \<open>BuildHandler\<close> fills and the
  constant \<open>lintSeverityError\<close> are declared outside the given sources; the spec gives
  the fields file, line, severity and message, and the fixed severity \<open>error\<close>.
\<close>

record Lint =
  File :: string
  LineNo :: int
  Severity :: string
  Msg :: string

definition lintSeverityError :: string where
  "lintSeverityError = ''error''"

definition newLint :: "string \<Rightarrow> string \<Rightarrow> int \<Rightarrow> string \<Rightarrow> Lint" where
  "newLint curDir file lineNo msg =
     \<lparr> File = filepath_ToSlash (filepath_Join [curDir, file]),
       LineNo = wrap64 (lineNo - 1),
       Severity = lintSeverityError,
       Msg = msg \<rparr>"

text \<open>
  One iteration of the loop over the captured lines (\<open>build.go\<close>, lines 257 to 296). The
  lints are pointers in the source, so appending to the message of the last one updates
  the list in place.
\<close>

definition lintLine :: "string \<Rightarrow> Lint list \<Rightarrow> string \<Rightarrow> go_panic + Lint list" where
  "lintLine curDir lints line =
     (if length line < 1 then Inr lints
      else if \<not> strings_Contains line '':'' then Inr lints
      else if hd line = TAB then
        (let last = int (length lints)
         in if last - 1 < 0 then Inl IndexOutOfRange
            else (let i = nat (last - 1); msg = Msg (lints ! i) @ line
                  in Inr (lints [i := (lints ! i) \<lparr> Msg := msg \<rparr>])))
      else
        (let file = take (nat (strings_Index line '':'')) line;
             left = drop (nat (strings_Index line '':'' + 1)) line;
             index = strings_Index left '':''
         in if 0 \<le> index then
              (case strconv_Atoi (take (nat index) left) of
                 None \<Rightarrow> Inr lints
               | Some lineNo \<Rightarrow>
                   (if int (length left) < index + 2 then Inl SliceBoundsOutOfRange
                    else Inr (lints @ [newLint curDir file lineNo (drop (nat (index + 2)) left)])))
            else Inr (lints @ [newLint curDir file 0 left])))"

fun lintRange :: "string \<Rightarrow> Lint list \<Rightarrow> string list \<Rightarrow> go_panic + Lint list" where
  "lintRange curDir lints [] = Inr lints"
| "lintRange curDir lints (line # rest) =
     (case lintLine curDir lints line of
        Inl p \<Rightarrow> Inl p
      | Inr lints' \<Rightarrow> lintRange curDir lints' rest)"

text \<open>
  The lint process of a failed build (\<open>build.go\<close>, lines 251 to 296): the check of the
  package marker reads \<open>lines[0][0]\<close>, which panics on an empty list and on an empty
  first line.
\<close>

definition lintProcess :: "string \<Rightarrow> string list \<Rightarrow> go_panic + Lint list" where
  "lintProcess curDir lines =
     (case lines of
        [] \<Rightarrow> Inl IndexOutOfRange
      | l0 # rest \<Rightarrow>
          (case l0 of
             [] \<Rightarrow> Inl IndexOutOfRange
           | c # _ \<Rightarrow> lintRange curDir [] (if c = CHR ''#'' then rest else lines)))"

section \<open>Pipes, the delivery channel and the messages written to it\<close>

text \<open>
  A pipe of the external process is the bytes it will deliver and the error that ends it:
  a clean end of stream, a path error (the pipe was closed), or any other read error.
  \<open>bufio.Reader.ReadString\<close> with the delimiter newline returns the bytes up to and
  including the first newline; when there is none, it returns what is left together with
  the error.
\<close>

datatype read_error = EOF | PathError | OtherError

type_synonym pipe = "string \<times> read_error"

definition ReadString :: "pipe \<Rightarrow> (string \<times> read_error option) \<times> pipe" where
  "ReadString p =
     (if NL \<in> set (fst p)
      then ((takeWhile (\<lambda>c. c \<noteq> NL) (fst p) @ [NL], None),
            (tl (dropWhile (\<lambda>c. c \<noteq> NL) (fst p)), snd p))
      else ((fst p, Some (snd p)), ([], snd p)))"

text \<open>
  \<open>ioutil.ReadAll\<close> over \<open>io.MultiReader(stdout, stderr)\<close>: all of the first pipe, then,
  if that one ended cleanly, all of the second; the error is ignored by the caller.
\<close>

definition ReadAllMulti :: "pipe \<Rightarrow> pipe \<Rightarrow> string" where
  "ReadAllMulti p q = fst p @ (if snd p = EOF then fst q else [])"

text \<open>
  The map \<open>channelRet\<close> that the handlers fill and write to the channel as JSON: a key
  that was never set is \<open>None\<close>. \<open>nextCmd\<close> is set to a request field that may itself be
  missing.
\<close>

record channelRet =
  cr_output :: "string option"
  cr_cmd :: "string option"
  cr_executable :: "string option"
  cr_nextCmd :: "string option option"
  cr_lints :: "Lint list option"

definition emptyRet :: channelRet where
  "emptyRet = \<lparr> cr_output = None, cr_cmd = None, cr_executable = None,
                 cr_nextCmd = None, cr_lints = None \<rparr>"

text \<open>
  What a handler does to the outside, in order: running a command to its end, starting the
  external process, writing a message to the channel, and waiting for the process to exit.
  A handler ends by answering (forbidden, or a result code), by a panic, or not at all,
  when \<open>cmd.Wait()\<close> never returns.
\<close>

datatype event =
    CombinedOutput "string list"
  | Start "string list"
  | WriteJSON channelRet
  | Wait

datatype outcome = Forbidden | Returned int | Panicked go_panic | Blocked

record run =
  result :: outcome
  trace :: "event list"

fun written :: "event list \<Rightarrow> channelRet list" where
  "written [] = []"
| "written (WriteJSON m # es) = m # written es"
| "written (e # es) = written es"

text \<open>\<open>strings.Replace\<close> with count 1, and \<open>fmt.Sprint\<close> of a slice of strings.\<close>

fun strings_Replace1 :: "string \<Rightarrow> string \<Rightarrow> string \<Rightarrow> string" where
  "strings_Replace1 [] old new = (if old = [] then new else [])"
| "strings_Replace1 (c # cs) old new =
     (if hasPrefix (c # cs) old then new @ drop (length old) (c # cs)
      else c # strings_Replace1 cs old new)"

definition fmt_Sprint :: "string list \<Rightarrow> string" where
  "fmt_Sprint xs = ''['' @ strings_Join xs '' '' @ '']''"

section \<open>The output streaming loops of the build handler\<close>

text \<open>
  The registry \<open>session.OutputWS\<close> is shared with other tasks, so every lookup of the
  session's channel may see it present or absent. A task's \<open>k\<close>-th lookup sees the
  channel exactly when \<open>ws k\<close> holds, and the write after that lookup fails exactly when
  \<open>wsErr k\<close> holds.

  The map \<open>channelRet\<close> is shared too: the handler and its background task both set
  keys of the one map and encode it, without a lock. Between a task's own update of the
  map and its write, the other task may have updated the map as well; \<open>race k\<close> is what
  the other task has done to the map by the time of the task's \<open>k\<close>-th write (the
  identity when it has done nothing), so the message written is the map as both tasks
  have left it, and the task goes on with that map.

  The background task that drains standard output (\<open>build.go\<close>, lines 174 to 207); the
  result is the messages it writes.
\<close>

function drainStdout ::
  "(nat \<Rightarrow> channelRet \<Rightarrow> channelRet) \<Rightarrow> (nat \<Rightarrow> bool) \<Rightarrow> (nat \<Rightarrow> bool) \<Rightarrow>
   nat \<Rightarrow> channelRet \<Rightarrow> pipe \<Rightarrow> channelRet list" where
  "drainStdout race ws wsErr k cr p =
     (if \<not> ws k then []
      else (case snd (fst (ReadString p)) of
              Some EOF \<Rightarrow> []
            | Some PathError \<Rightarrow> []
            | Some OtherError \<Rightarrow> []
            | None \<Rightarrow>
                (let cr' = race k (cr \<lparr> cr_output := Some (fst (fst (ReadString p))) \<rparr>)
                 in if wsErr k then [cr']
                    else cr' # drainStdout race ws wsErr (Suc k) cr' (snd (ReadString p)))))"
  by pat_completeness auto
termination
proof (relation "measure (\<lambda>(race, ws, wsErr, k, cr, p). length (fst p))")
  show "wf (measure (\<lambda>(race, ws, wsErr, k, cr, p). length (fst p)))"
    by simp
next
  fix race :: "nat \<Rightarrow> channelRet \<Rightarrow> channelRet" and ws wsErr :: "nat \<Rightarrow> bool" and k :: nat
    and cr x :: channelRet and p :: pipe
  assume "snd (fst (ReadString p)) = None"
  then have nl: "NL \<in> set (fst p)"
    by (simp add: ReadString_def split: if_splits)
  then have "dropWhile (\<lambda>c. c \<noteq> NL) (fst p) \<noteq> []"
    by simp
  then have "length (tl (dropWhile (\<lambda>c. c \<noteq> NL) (fst p))) < length (dropWhile (\<lambda>c. c \<noteq> NL) (fst p))"
    by simp
  also have "\<dots> \<le> length (fst p)"
    by (rule length_dropWhile_le)
  finally show "((race, ws, wsErr, Suc k, x, snd (ReadString p)), (race, ws, wsErr, k, cr, p))
      \<in> measure (\<lambda>(race, ws, wsErr, k, cr, p). length (fst p))"
    using nl by (simp add: ReadString_def)
qed

text \<open>
  The loop of the handler itself, which drains standard error (\<open>build.go\<close>, lines 212 to
  242). It returns the index of the task's next lookup, the map \<open>channelRet\<close>, the
  captured lines and the messages written. \<open>parsePath\<close> is a function of the package
  that is not among the given sources, so it is a parameter; \<open>stderrSpan\<close> is the output
  that lines 232 and 233 compute for a line.
\<close>

definition stderrSpan :: "(string \<Rightarrow> string \<Rightarrow> string) \<Rightarrow> string \<Rightarrow> string \<Rightarrow> string option" where
  "stderrSpan parsePath curDir line =
     Some (''<span class='stderr'>'' @ parsePath curDir line @ ''</span>'')"

function drainStderr ::
  "(nat \<Rightarrow> channelRet \<Rightarrow> channelRet) \<Rightarrow> (nat \<Rightarrow> bool) \<Rightarrow> (nat \<Rightarrow> bool) \<Rightarrow>
   (string \<Rightarrow> string \<Rightarrow> string) \<Rightarrow> string \<Rightarrow>
   nat \<Rightarrow> channelRet \<Rightarrow> string list \<Rightarrow> pipe \<Rightarrow>
   nat \<times> channelRet \<times> string list \<times> channelRet list" where
  "drainStderr race ws wsErr parsePath curDir k cr lines p =
     (if \<not> ws k then (Suc k, cr, lines, [])
      else (case snd (fst (ReadString p)) of
              Some EOF \<Rightarrow> (Suc k, cr, lines, [])
            | Some PathError \<Rightarrow> (Suc k, cr, lines @ [fst (fst (ReadString p))], [])
            | Some OtherError \<Rightarrow> (Suc k, cr, lines @ [fst (fst (ReadString p))], [])
            | None \<Rightarrow>
                (let line = fst (fst (ReadString p));
                     cr' = race k (cr \<lparr> cr_output := stderrSpan parsePath curDir line \<rparr>)
                 in if wsErr k then (Suc k, cr', lines @ [line], [cr'])
                    else (case drainStderr race ws wsErr parsePath curDir (Suc k) cr' (lines @ [line])
                                 (snd (ReadString p)) of
                            (k', c, ls, ms) \<Rightarrow> (k', c, ls, cr' # ms)))))"
  by pat_completeness auto
termination
proof (relation "measure (\<lambda>(race, ws, wsErr, parsePath, curDir, k, cr, lines, p). length (fst p))")
  show "wf (measure (\<lambda>(race, ws, wsErr, parsePath, curDir, k, cr, lines, p). length (fst p)))"
    by simp
next
  fix race :: "nat \<Rightarrow> channelRet \<Rightarrow> channelRet" and ws wsErr :: "nat \<Rightarrow> bool" and parsePath :: "string \<Rightarrow> string \<Rightarrow> string"
    and curDir :: string and k :: nat and cr x :: channelRet and lines :: "string list"
    and p :: pipe and line :: string
  assume "snd (fst (ReadString p)) = None"
  then have nl: "NL \<in> set (fst p)"
    by (simp add: ReadString_def split: if_splits)
  then have "dropWhile (\<lambda>c. c \<noteq> NL) (fst p) \<noteq> []"
    by simp
  then have "length (tl (dropWhile (\<lambda>c. c \<noteq> NL) (fst p))) < length (dropWhile (\<lambda>c. c \<noteq> NL) (fst p))"
    by simp
  also have "\<dots> \<le> length (fst p)"
    by (rule length_dropWhile_le)
  finally show "((race, ws, wsErr, parsePath, curDir, Suc k, x, lines @ [line], snd (ReadString p)),
       (race, ws, wsErr, parsePath, curDir, k, cr, lines, p))
      \<in> measure (\<lambda>(race, ws, wsErr, parsePath, curDir, k, cr, lines, p). length (fst p))"
    using nl by (simp add: ReadString_def)
qed

declare drainStdout.simps [simp del] drainStderr.simps [simp del]

definition captured :: "nat \<times> channelRet \<times> string list \<times> channelRet list \<Rightarrow> string list" where
  "captured r = fst (snd (snd r))"

definition forwarded :: "nat \<times> channelRet \<times> string list \<times> channelRet list \<Rightarrow> channelRet list" where
  "forwarded r = snd (snd (snd r))"

section \<open>The build handler\<close>

text \<open>
  Everything \<open>BuildHandler\<close> reads from outside: the request and the session, the answers
  of the file system and of the collaborators, the results of the commands it runs, and
  the channel as the handler (\<open>b_ws\<close>, \<open>b_wsErr\<close>) and its background task (\<open>b_wsBg\<close>,
  \<open>b_wsBgErr\<close>) see it, and what each of the two has done to the shared map by the time of
  the other's writes (\<open>b_race\<close> for the writes of the handler, \<open>b_raceBg\<close> for those of the
  background task). \<open>cmd.Wait()\<close> blocks until the compiler exits; \<open>b_waitBlocks\<close> says
  that it never does, as when the loops have stopped reading and the compiler is blocked
  on a pipe that is full. The pipes are those of a compiler that closes them. The request
  is taken to carry the fields the handler reads.
\<close>

record build_env =
  b_isNew :: bool
  b_decodeErr :: bool
  b_forbidden :: bool
  b_createErr :: bool
  b_writeErr :: bool
  b_curDir :: string
  b_nextCmd :: "string option"
  b_i18n :: "string \<Rightarrow> string"
  b_buildArgs :: "string list"
  b_parsePath :: "string \<Rightarrow> string \<Rightarrow> string"
  b_isWindows :: bool
  b_goModExists :: bool
  b_modErr :: bool
  b_modOutput :: string
  b_stdoutPipeErr :: bool
  b_stderrPipeErr :: bool
  b_startErr :: bool
  b_stdout :: pipe
  b_stderr :: pipe
  b_waitBlocks :: bool
  b_waitErr :: bool
  b_ws :: "nat \<Rightarrow> bool"
  b_wsErr :: "nat \<Rightarrow> bool"
  b_wsBg :: "nat \<Rightarrow> bool"
  b_wsBgErr :: "nat \<Rightarrow> bool"
  b_race :: "nat \<Rightarrow> channelRet \<Rightarrow> channelRet"
  b_raceBg :: "nat \<Rightarrow> channelRet \<Rightarrow> channelRet"

text \<open>
  Modelled from the spec: \<open>gulu.Str.Contains\<close> is a helper of this repository that is not
  among the given sources; the spec has the fixed flag appended if it is absent from the
  argument vector, so the helper is membership in the list.
\<close>

definition gulu_Str_Contains :: "string \<Rightarrow> string list \<Rightarrow> bool" where
  "gulu_Str_Contains str strs = (str \<in> set strs)"

text \<open>The announcement of the start (\<open>build.go\<close>, lines 87 to 100); its write error is ignored.\<close>

definition startBuildRet :: "build_env \<Rightarrow> channelRet" where
  "startBuildRet env =
     (let msg = strings_Replace1 (b_i18n env ''start-build'') ''build]''
                  (''build '' @ fmt_Sprint (b_buildArgs env) @ '']'')
      in emptyRet \<lparr> cr_output := Some (''<span class='start-build'>'' @ msg @ ''</span>\<newline>''),
                    cr_cmd := Some ''start-build'' \<rparr>)"

text \<open>The command that prepares the module (\<open>build.go\<close>, lines 102 to 108).\<close>

definition goModCmd :: "build_env \<Rightarrow> string list" where
  "goModCmd env =
     (if \<not> b_goModExists env then [''go'', ''mod'', ''init'', filepath_Base (b_curDir env)]
      else [''go'', ''mod'', ''tidy''])"

text \<open>The arguments of the compiler and the path of the executable (lines 120 to 136).\<close>

definition goBuildArgs :: "build_env \<Rightarrow> string list" where
  "goBuildArgs env =
     (let args = [''build''] @ b_buildArgs env
      in if \<not> gulu_Str_Contains ''-i'' args then args @ [''-i''] else args)"

definition executablePath :: "build_env \<Rightarrow> string" where
  "executablePath env =
     (let suffix = (if b_isWindows env then ''.exe'' else [])
      in filepath_Join [b_curDir env, filepath_Base (b_curDir env) @ suffix])"

text \<open>
  After the wait has returned (\<open>build.go\<close>, lines 244 to 310): the banner, the lint
  process on a failed build, and the last write, which is skipped when the channel is
  absent. The background task may still be running, so this write too encodes the map as
  both tasks have left it.
\<close>

definition resolveBuild ::
  "build_env \<Rightarrow> nat \<Rightarrow> channelRet \<Rightarrow> string list \<Rightarrow> event list \<Rightarrow> run" where
  "resolveBuild env k cr lines tr =
     (if \<not> b_waitErr env then
        (let cr' = cr \<lparr> cr_nextCmd := Some (b_nextCmd env),
                         cr_output := Some (''<span class='build-succ'>'' @ b_i18n env ''build-succ''
                                            @ ''</span>\<newline>'') \<rparr>
         in if \<not> b_ws env k then \<lparr> result = Returned 0, trace = tr \<rparr>
            else \<lparr> result = Returned 0, trace = tr @ [WriteJSON (b_race env k cr')] \<rparr>)
      else
        (case lintProcess (b_curDir env) lines of
           Inl pnc \<Rightarrow> \<lparr> result = Panicked pnc, trace = tr \<rparr>
         | Inr ls \<Rightarrow>
             (let cr' = cr \<lparr> cr_output := Some (''<span class='build-error'>''
                                                @ b_i18n env ''build-error'' @ ''</span>\<newline>''),
                             cr_lints := Some ls \<rparr>
              in if \<not> b_ws env k then \<lparr> result = Returned 0, trace = tr \<rparr>
                 else \<lparr> result = Returned 0, trace = tr @ [WriteJSON (b_race env k cr')] \<rparr>)))"

text \<open>
  From the start of the compiler on (\<open>build.go\<close>, lines 158 to 311). The trace of the
  handler has its own writes; those of the background task are \<open>backgroundWrites\<close>. The
  handler calls \<open>cmd.Wait()\<close> after its loop in every case; when the call never returns,
  neither does the handler.
\<close>

definition compileAndStream :: "build_env \<Rightarrow> nat \<Rightarrow> channelRet \<Rightarrow> event list \<Rightarrow> run" where
  "compileAndStream env k cr tr =
     (if b_startErr env then \<lparr> result = Returned (- 1), trace = tr \<rparr>
      else
        (let cr1 = cr \<lparr> cr_cmd := Some ''build'', cr_executable := Some (executablePath env) \<rparr>;
             tr1 = tr @ [Start (''go'' # goBuildArgs env)]
         in (case drainStderr (b_race env) (b_ws env) (b_wsErr env) (b_parsePath env)
                    (b_curDir env) k cr1 [] (b_stderr env) of
               (k', cr2, lines, ms) \<Rightarrow>
                 (if b_waitBlocks env
                  then \<lparr> result = Blocked, trace = tr1 @ map WriteJSON ms @ [Wait] \<rparr>
                  else resolveBuild env k' cr2 lines (tr1 @ map WriteJSON ms @ [Wait])))))"

text \<open>
  The background task starts from the map as the handler has it when the compiler is
  started, and sets its own output before every write.
\<close>

definition backgroundWrites :: "build_env \<Rightarrow> channelRet list" where
  "backgroundWrites env =
     drainStdout (b_raceBg env) (b_wsBg env) (b_wsBgErr env) 0
       ((if b_ws env 0 then startBuildRet env else emptyRet)
          \<lparr> cr_cmd := Some ''build'', cr_executable := Some (executablePath env) \<rparr>)
       (b_stdout env)"

text \<open>
  The handler (\<open>build.go\<close>, lines 38 to 311). The check of the result code at line 154
  never fires, since every earlier failure returns at once.
\<close>

definition BuildHandler :: "build_env \<Rightarrow> run" where
  "BuildHandler env =
     (if b_isNew env then \<lparr> result = Forbidden, trace = [] \<rparr>
      else if b_decodeErr env then \<lparr> result = Returned (- 1), trace = [] \<rparr>
      else if b_forbidden env then \<lparr> result = Forbidden, trace = [] \<rparr>
      else if b_createErr env then \<lparr> result = Returned (- 1), trace = [] \<rparr>
      else if b_writeErr env then \<lparr> result = Returned (- 1), trace = [] \<rparr>
      else
        (let cr = (if b_ws env 0 then startBuildRet env else emptyRet);
             tr = (if b_ws env 0 then [WriteJSON (startBuildRet env)] else []);
             tr1 = tr @ [CombinedOutput (goModCmd env)]
         in if b_modErr env \<and> strings_Contains (b_modOutput env) ''go.mod already exists''
            then \<lparr> result = Returned (- 1), trace = tr1 \<rparr>
            else if b_stdoutPipeErr env then \<lparr> result = Returned (- 1), trace = tr1 \<rparr>
            else if b_stderrPipeErr env then \<lparr> result = Returned (- 1), trace = tr1 \<rparr>
            else compileAndStream env 1 cr tr1))"

section \<open>The test handler\<close>

text \<open>
  What \<open>GoTestHandler\<close> reads from outside. The channel is looked up twice: before the
  start is announced (\<open>t_wsStart\<close>) and when the background task has the outcome
  (\<open>t_wsDone\<close>); \<open>t_success\<close> is \<open>cmd.ProcessState.Success()\<close> after the wait.
\<close>

record test_env =
  t_isNew :: bool
  t_decodeErr :: bool
  t_i18n :: "string \<Rightarrow> string"
  t_stdoutPipeErr :: bool
  t_stderrPipeErr :: bool
  t_wsStart :: bool
  t_wsStartErr :: bool
  t_startErr :: bool
  t_stdout :: pipe
  t_stderr :: pipe
  t_success :: bool
  t_wsDone :: bool

definition startTestRet :: "test_env \<Rightarrow> channelRet" where
  "startTestRet env =
     emptyRet \<lparr> cr_output := Some (''<span class='start-test'>'' @ t_i18n env ''start-test''
                                     @ ''</span>\<newline>''),
                 cr_cmd := Some ''start-test'' \<rparr>"

text \<open>
  The background task of the test handler (\<open>test.go\<close>, lines 117 to 151): it reads all
  output, waits, and writes one message if the channel is there. Its events are what it
  adds to the trace.
\<close>

definition testDoneRet :: "test_env \<Rightarrow> channelRet" where
  "testDoneRet env =
     (let buf = ReadAllMulti (t_stdout env) (t_stderr env)
      in if \<not> t_success env
         then emptyRet \<lparr> cr_cmd := Some ''go test'',
                          cr_output := Some (''<span class='test-error'>'' @ t_i18n env ''test-error''
                                             @ ''</span>\<newline>'' @ buf) \<rparr>
         else emptyRet \<lparr> cr_cmd := Some ''go test'',
                          cr_output := Some (''<span class='test-succ'>'' @ t_i18n env ''test-succ''
                                             @ ''</span>\<newline>'' @ buf) \<rparr>)"

definition testTask :: "test_env \<Rightarrow> event list" where
  "testTask env = Wait # (if t_wsDone env then [WriteJSON (testDoneRet env)] else [])"

text \<open>
  The handler (\<open>test.go\<close>, lines 36 to 152). It returns as soon as the background task
  is started; the trace continues with what that task does.
\<close>

definition GoTestHandler :: "test_env \<Rightarrow> run" where
  "GoTestHandler env =
     (if t_isNew env then \<lparr> result = Forbidden, trace = [] \<rparr>
      else if t_decodeErr env then \<lparr> result = Returned (- 1), trace = [] \<rparr>
      else if t_stdoutPipeErr env then \<lparr> result = Returned (- 1), trace = [] \<rparr>
      else if t_stderrPipeErr env then \<lparr> result = Returned (- 1), trace = [] \<rparr>
      else if t_wsStart env \<and> t_wsStartErr env
        then \<lparr> result = Returned 0, trace = [WriteJSON (startTestRet env)] \<rparr>
      else
        (let tr = (if t_wsStart env then [WriteJSON (startTestRet env)] else [])
         in if t_startErr env then \<lparr> result = Returned (- 1), trace = tr \<rparr>
            else \<lparr> result = Returned 0,
                   trace = tr @ [Start [''go'', ''test'', ''-v'']] @ testTask env \<rparr>))"

text \<open>The messages of a trace that carry a given command tag.\<close>

definition withCmd :: "string \<Rightarrow> event list \<Rightarrow> channelRet list" where
  "withCmd c tr = filter (\<lambda>m. cr_cmd m = Some c) (written tr)"

definition spawned :: "event list \<Rightarrow> bool" where
  "spawned tr = list_ex (\<lambda>e. case e of Start _ \<Rightarrow> True | _ \<Rightarrow> False) tr"

definition waited :: "event list \<Rightarrow> bool" where
  "waited tr = list_ex (\<lambda>e. case e of Wait \<Rightarrow> True | _ \<Rightarrow> False) tr"



section \<open>Two concrete invocations\<close>

text \<open>
  A build in \<open>/proj\<close> whose compiler reports one error and exits with a failure, and a
  test run that fails; in both the channel is there throughout and every write succeeds,
  and in the build neither task updates the shared map between an update and a write of
  the other.
\<close>

definition exampleBuild :: build_env where
  "exampleBuild =
     \<lparr> b_isNew = False, b_decodeErr = False, b_forbidden = False, b_createErr = False,
       b_writeErr = False, b_curDir = ''/proj'', b_nextCmd = None, b_i18n = (\<lambda>key. key),
       b_buildArgs = [], b_parsePath = (\<lambda>dir line. line), b_isWindows = False,
       b_goModExists = True, b_modErr = False, b_modOutput = [],
       b_stdoutPipeErr = False, b_stderrPipeErr = False, b_startErr = False,
       b_stdout = ([], EOF),
       b_stderr = (''# proj\<newline>main.go:10: undefined: foo\<newline>'', EOF),
       b_waitBlocks = False, b_waitErr = True,
       b_ws = (\<lambda>k. True), b_wsErr = (\<lambda>k. False),
       b_wsBg = (\<lambda>k. True), b_wsBgErr = (\<lambda>k. False),
       b_race = (\<lambda>k m. m), b_raceBg = (\<lambda>k m. m) \<rparr>"

definition exampleTest :: test_env where
  "exampleTest =
     \<lparr> t_isNew = False, t_decodeErr = False, t_i18n = (\<lambda>key. key),
       t_stdoutPipeErr = False, t_stderrPipeErr = False,
       t_wsStart = True, t_wsStartErr = False, t_startErr = False,
       t_stdout = (''--- FAIL: TestX\<newline>'', EOF), t_stderr = (''exit status 1\<newline>'', EOF),
       t_success = False, t_wsDone = True \<rparr>"

section \<open>Facts about the library functions\<close>

lemma indexFrom_first:
  "d \<notin> set p \<Longrightarrow> indexFrom k (p @ d # r) [d] = int (k + length p)"
  by (induction p arbitrary: k) auto

lemma indexFrom_absent:
  "d \<notin> set s \<Longrightarrow> indexFrom k s [d] = - 1"
  by (induction s arbitrary: k) auto

lemma indexFrom_nonneg_iff:
  "(0 \<le> indexFrom k s [d]) = (d \<in> set s)"
  by (induction s arbitrary: k) auto

lemma strings_Index_first:
  "d \<notin> set p \<Longrightarrow> strings_Index (p @ d # r) [d] = int (length p)"
  by (simp add: strings_Index_def indexFrom_first)

lemma strings_Index_absent:
  "d \<notin> set s \<Longrightarrow> strings_Index s [d] = - 1"
  by (simp add: strings_Index_def indexFrom_absent)

lemma strings_Contains_char:
  "strings_Contains s [d] = (d \<in> set s)"
  by (simp add: strings_Contains_def strings_Index_def indexFrom_nonneg_iff)

lemma hasPrefix_TAB_hd:
  "line \<noteq> [] \<Longrightarrow> hasPrefix line [TAB] = (hd line = TAB)"
  by (cases line) auto

lemma wrap64_in_range:
  "- (2 ^ 63) \<le> x \<Longrightarrow> x < 2 ^ 63 \<Longrightarrow> wrap64 x = x"
  by (simp add: wrap64_def)





lemma written_append: "written (xs @ ys) = written xs @ written ys"
  by (induction xs rule: written.induct) auto

lemma written_map_WriteJSON: "written (map WriteJSON ms) = ms"
  by (induction ms) auto

section \<open>Properties of the lint process\<close>


text \<open>
  How the loop treats a line \<open>path:tok:msg\<close> that does not start with a tab: the part
  before the first colon, the part up to the second one, and the rest.
\<close>

lemma lintLine_two_colons:
  assumes "line = path @ '':'' @ tok @ '':'' @ msg"
    and "CHR '':'' \<notin> set path" and "CHR '':'' \<notin> set tok"
    and "\<not> hasPrefix line [TAB]"
  shows "lintLine curDir ls line =
     (case strconv_Atoi tok of
        None \<Rightarrow> Inr ls
      | Some n \<Rightarrow>
          (if msg = [] then Inl SliceBoundsOutOfRange
           else Inr (ls @ [newLint curDir path n (tl msg)])))"
proof -
  have ne: "line \<noteq> []" using assms(1) by simp
  have c: "strings_Contains line '':''" using assms(1) by (simp add: strings_Contains_char)
  have i: "strings_Index line '':'' = int (length path)"
    using assms(1,2) strings_Index_first [of "CHR '':''" path "tok @ '':'' @ msg"] by simp
  have pth: "take (nat (strings_Index line '':'')) line = path"
    using assms(1) i by simp
  have left: "drop (nat (strings_Index line '':'' + 1)) line = tok @ CHR '':'' # msg"
    using assms(1) i by (simp add: nat_add_distrib)
  have j: "strings_Index (tok @ CHR '':'' # msg) '':'' = int (length tok)"
    using assms(3) strings_Index_first [of "CHR '':''" tok msg] by simp
  have d: "drop (nat (int (length tok) + 2)) (tok @ CHR '':'' # msg) = tl msg"
    by (simp add: nat_add_distrib drop_Suc)
  have nt: "hd line \<noteq> TAB" using assms(4) ne by (simp add: hasPrefix_TAB_hd)
  have "lintLine curDir ls line =
     (case strconv_Atoi tok of
        None \<Rightarrow> Inr ls
      | Some n \<Rightarrow>
          (if int (length (tok @ CHR '':'' # msg)) < int (length tok) + 2
           then Inl SliceBoundsOutOfRange
           else Inr (ls @ [newLint curDir path n (tl msg)])))"
    using ne c nt
    by (cases "strconv_Atoi tok") (simp_all add: lintLine_def pth left j d Let_def del: drop_append)
  moreover have "(int (length (tok @ CHR '':'' # msg)) < int (length tok) + 2) = (msg = [])"
    by (cases msg) auto
  ultimately show ?thesis
    by (cases "strconv_Atoi tok") simp_all
qed

lemma lintLine_one_colon:
  assumes "line = path @ '':'' @ msg"
    and "CHR '':'' \<notin> set path" and "CHR '':'' \<notin> set msg"
    and "\<not> hasPrefix line [TAB]"
  shows "lintLine curDir ls line = Inr (ls @ [newLint curDir path 0 msg])
       \<and> LineNo (newLint curDir path 0 msg) = - 1"
proof -
  have ne: "line \<noteq> []" using assms(1) by simp
  have c: "strings_Contains line '':''" using assms(1) by (simp add: strings_Contains_char)
  have i: "strings_Index line '':'' = int (length path)"
    using assms(1,2) strings_Index_first [of "CHR '':''" path msg] by simp
  have pth: "take (nat (strings_Index line '':'')) line = path"
    using assms(1) i by simp
  have left: "drop (nat (strings_Index line '':'' + 1)) line = msg"
    using assms(1) i by (simp add: nat_add_distrib)
  have j: "strings_Index msg '':'' = - 1"
    using assms(3) by (simp add: strings_Index_absent)
  have nt: "hd line \<noteq> TAB" using assms(4) ne by (simp add: hasPrefix_TAB_hd)
  have "lintLine curDir ls line = Inr (ls @ [newLint curDir path 0 msg])"
    using ne c nt by (simp add: lintLine_def pth left j Let_def)
  moreover have "LineNo (newLint curDir path 0 msg) = - 1"
    by (simp add: newLint_def wrap64_def)
  ultimately show ?thesis by simp
qed

lemma lintLine_numbered:
  assumes "line = path @ '':'' @ tok @ '':'' @ msg"
    and "CHR '':'' \<notin> set path" and "CHR '':'' \<notin> set tok"
    and "\<not> hasPrefix line [TAB]" and "strconv_Atoi tok = Some n" and "msg \<noteq> []"
  shows "\<exists>lint. lintLine curDir ls line = Inr (ls @ [lint]) \<and> LineNo lint = wrap64 (n - 1)"
  using lintLine_two_colons [OF assms(1-4), of curDir ls] assms(5,6)
  by (simp add: newLint_def)


lemma lintLine_no_colon:
  "\<not> strings_Contains line '':'' \<Longrightarrow> lintLine curDir ls line = Inr ls"
  by (simp add: lintLine_def)

text \<open>
  Claim C2. Every lint that the lint process emits has the reported line number minus one
  as its line when the line had a numeric line token, and the line 0 otherwise; a raw
  line with exactly one colon gives the line 0. The code reaches line 0 only for the
  reported line 1: the line number starts at 0 and one is subtracted from it in every
  lint, so a line with one colon gets the line \<open>-1\<close> (\<open>lintLine_one_colon\<close> has it for
  every such line, \<open>lintLine_numbered\<close> has the first half of the claim).
\<close>

theorem one_colon_line_number:
  "lintProcess ''/proj'' [''main.go: missing return\<newline>'']
     = Inr [\<lparr> File = ''/proj/main.go'', LineNo = - 1, Severity = ''error'',
              Msg = '' missing return\<newline>'' \<rparr>]"
  by code_simp

text \<open>
  Claim C3, as amended. A raw line \<open>path:tok:msg\<close> that does not start with a tab and
  whose token between the first and the second colon does not parse as an integer emits
  no lint: the lints are as they were, and the loop goes on with the next line.
\<close>

theorem non_numeric_line_skipped:
  assumes "line = path @ '':'' @ tok @ '':'' @ msg"
    and "CHR '':'' \<notin> set path" and "CHR '':'' \<notin> set tok"
    and "strconv_Atoi tok = None" and "\<not> hasPrefix line [TAB]"
  shows "lintLine curDir ls line = Inr ls \<and>
         lintRange curDir ls (line # rest) = lintRange curDir ls rest"
  using lintLine_two_colons [OF assms(1-3) assms(5), of curDir ls] assms(4) by simp

text \<open>The amended claim C3 at the line \<open>main.go:abc: msg\<close>.\<close>

theorem non_numeric_line_skipped_witness:
  "''main.go:abc: msg'' = ''main.go'' @ '':'' @ ''abc'' @ '':'' @ '' msg''
   \<and> CHR '':'' \<notin> set ''main.go'' \<and> CHR '':'' \<notin> set ''abc''
   \<and> strconv_Atoi ''abc'' = None \<and> \<not> hasPrefix ''main.go:abc: msg'' [TAB]
   \<and> lintLine ''/proj'' [] ''main.go:abc: msg'' = Inr []
   \<and> lintRange ''/proj'' [] (''main.go:abc: msg'' # [''x.go:3: y''])
       = lintRange ''/proj'' [] [''x.go:3: y'']"
proof -
  have h1: "''main.go:abc: msg'' = ''main.go'' @ '':'' @ ''abc'' @ '':'' @ '' msg''"
    by simp
  have h2: "CHR '':'' \<notin> set ''main.go''" by simp
  have h3: "CHR '':'' \<notin> set ''abc''" by simp
  have h4: "strconv_Atoi ''abc'' = None" by code_simp
  have h5: "\<not> hasPrefix ''main.go:abc: msg'' [TAB]" by (simp add: TAB_def)
  from non_numeric_line_skipped [OF h1 h2 h3 h4 h5, of "''/proj''" "[]" "[''x.go:3: y'']"]
    h1 h2 h3 h4 h5
  show ?thesis by blast
qed

text \<open>
  Claim C3 as stated fails: for the line \<open>main.go:abc: msg\<close> the lint process emits nothing,
  so there is no lint with line 0 and the message \<open>abc: msg\<close>.
\<close>

theorem non_numeric_line_counterexample:
  "lintProcess ''/proj'' [''main.go:abc: msg''] = Inr []
   \<and> lintProcess ''/proj'' [''main.go:abc: msg'']
       \<noteq> Inr [\<lparr> File = ''/proj/main.go'', LineNo = 0, Severity = ''error'',
                 Msg = ''abc: msg'' \<rparr>]"
  by code_simp

text \<open>
  Claim C4, as amended. The lint process on the single line
  \<open>main.go:10:2: undefined: foo\<close> with the working directory \<open>/proj\<close> gives exactly one
  lint, with the file \<open>/proj/main.go\<close>, the line 9, the severity \<open>error\<close> and the message
  \<open>: undefined: foo\<close>: the message starts two bytes after the line token, so the column
  is cut and its colon stays. (The line as the handler captures it ends with a newline,
  which the message keeps.)
\<close>

theorem scenario_B_lint:
  "lintProcess ''/proj'' [''main.go:10:2: undefined: foo'']
     = Inr [\<lparr> File = ''/proj/main.go'', LineNo = 9, Severity = ''error'',
              Msg = '': undefined: foo'' \<rparr>]
   \<and> lintProcess ''/proj'' [''main.go:10:2: undefined: foo\<newline>'']
     = Inr [\<lparr> File = ''/proj/main.go'', LineNo = 9, Severity = ''error'',
              Msg = '': undefined: foo\<newline>'' \<rparr>]"
  by code_simp

text \<open>Claim C4 as stated fails: the message is not \<open>undefined: foo\<close>.\<close>

theorem scenario_B_counterexample:
  "lintProcess ''/proj'' [''main.go:10:2: undefined: foo'']
     \<noteq> Inr [\<lparr> File = ''/proj/main.go'', LineNo = 9, Severity = ''error'',
               Msg = ''undefined: foo'' \<rparr>]"
  by code_simp




text \<open>
  Claim C9. For a build that exits with a failure, the check of the package marker and
  the classification stay in bounds for every list of captured lines, the empty one
  included. The code reads \<open>lines[0][0]\<close> unguarded: when the channel is absent at the
  first lookup, the loop has captured nothing and the lint process panics; a first line
  that starts with a tab makes it read the lint before the first one.
\<close>

theorem lint_process_empty_panics:
  "captured (drainStderr race (\<lambda>k. False) wsErr pp dir k cr [] p) = []
   \<and> lintProcess dir [] = Inl IndexOutOfRange
   \<and> lintProcess dir [TAB # ''want: int''] = Inl IndexOutOfRange"
proof -
  have "drainStderr race (\<lambda>k. False) wsErr pp dir k cr [] p = (Suc k, cr, [], [])"
    by (subst drainStderr.simps) simp
  then show ?thesis
    by (simp add: captured_def lintProcess_def lintLine_def strings_Contains_char TAB_def)
qed

section \<open>Properties of the streaming loops\<close>












text \<open>
  When the background task sets the output of the map between the handler's update and
  its write, the handler forwards the line of standard output in place of the span.
\<close>

lemma shared_map_overwritten:
  "map cr_output (forwarded (drainStderr (\<lambda>k m. m \<lparr> cr_output := Some ''ok\<newline>'' \<rparr>)
       (\<lambda>k. True) (\<lambda>k. False) (\<lambda>d l. l) ''/proj'' 0 emptyRet [] (''main.go:10: bad\<newline>'', EOF)))
     = [Some ''ok\<newline>'']"
  by code_simp

section \<open>Properties of the build handler\<close>

lemma resolveBuild_keeps_waited:
  "waited tr \<Longrightarrow> waited (trace (resolveBuild env k cr lines tr))"
  by (simp add: resolveBuild_def Let_def waited_def split: sum.splits)

lemma resolveBuild_keeps_spawned:
  "spawned tr \<Longrightarrow> spawned (trace (resolveBuild env k cr lines tr))"
  by (simp add: resolveBuild_def Let_def spawned_def split: sum.splits)

lemma resolveBuild_success:
  "\<not> b_waitErr env \<Longrightarrow> result (resolveBuild env k cr lines tr) = Returned 0"
  by (simp add: resolveBuild_def Let_def)

text \<open>
  Once the compiler is started the handler calls the wait, whether or not the wait returns.
\<close>

lemma compileAndStream_started:
  assumes "\<not> b_startErr env"
  shows "spawned (trace (compileAndStream env k cr tr))
       \<and> waited (trace (compileAndStream env k cr tr))"
proof -
  obtain k' cr2 lines ms where d:
    "drainStderr (b_race env) (b_ws env) (b_wsErr env) (b_parsePath env) (b_curDir env) k
       (cr \<lparr> cr_cmd := Some ''build'', cr_executable := Some (executablePath env) \<rparr>) []
       (b_stderr env)
     = (k', cr2, lines, ms)"
    by (metis prod_cases4)
  let ?tr = "(tr @ [Start (''go'' # goBuildArgs env)]) @ map WriteJSON ms @ [Wait]"
  have t: "compileAndStream env k cr tr =
      (if b_waitBlocks env then \<lparr> result = Blocked, trace = ?tr \<rparr>
       else resolveBuild env k' cr2 lines ?tr)"
    using assms d by (simp add: compileAndStream_def Let_def)
  have "spawned ?tr" by (simp add: spawned_def)
  moreover have "waited ?tr" by (simp add: waited_def)
  ultimately show ?thesis
    by (cases "b_waitBlocks env")
      (simp_all only: t if_True if_False run.select_convs
        resolveBuild_keeps_spawned resolveBuild_keeps_waited simp_thms)
qed

lemma compileAndStream_not_started:
  "b_startErr env \<Longrightarrow> compileAndStream env k cr tr = \<lparr> result = Returned (- 1), trace = tr \<rparr>"
  by (simp add: compileAndStream_def)

lemma BuildHandler_cases:
  "BuildHandler env = compileAndStream env 1
       (if b_ws env 0 then startBuildRet env else emptyRet)
       ((if b_ws env 0 then [WriteJSON (startBuildRet env)] else [])
        @ [CombinedOutput (goModCmd env)])
   \<and> \<not> (b_modErr env \<and> strings_Contains (b_modOutput env) ''go.mod already exists'')
   \<or> \<not> spawned (trace (BuildHandler env))
     \<and> result (BuildHandler env) \<in> {Forbidden, Returned (- 1)}"
  by (simp add: BuildHandler_def Let_def spawned_def)

text \<open>Whenever the handler has started the compiler, it also waits for it to exit.\<close>

lemma BuildHandler_spawned_waited:
  assumes "spawned (trace (BuildHandler env))"
  shows "waited (trace (BuildHandler env))"
proof -
  let ?cr = "if b_ws env 0 then startBuildRet env else emptyRet"
  let ?tr = "(if b_ws env 0 then [WriteJSON (startBuildRet env)] else [])
             @ [CombinedOutput (goModCmd env)]"
  from BuildHandler_cases [of env] assms
  have b: "BuildHandler env = compileAndStream env 1 ?cr ?tr" by blast
  have "\<not> spawned ?tr" by (simp add: spawned_def)
  then have "\<not> b_startErr env"
    using assms b compileAndStream_not_started [of env 1 ?cr ?tr] by auto
  then show ?thesis
    using b compileAndStream_started [of env 1 ?cr ?tr] by simp
qed

text \<open>
  The two halves of the module preparation, for every invocation that gets that far: a
  failure whose output says that the descriptor already exists ends the handler with the
  code \<open>-1\<close>, and any other failure is passed over.
\<close>

lemma BuildHandler_already_exists_aborts:
  assumes "\<not> b_isNew env" "\<not> b_decodeErr env" "\<not> b_forbidden env"
    "\<not> b_createErr env" "\<not> b_writeErr env"
    and "b_modErr env" and "strings_Contains (b_modOutput env) ''go.mod already exists''"
  shows "result (BuildHandler env) = Returned (- 1) \<and> \<not> spawned (trace (BuildHandler env))"
  using assms by (simp add: BuildHandler_def spawned_def Let_def)

lemma BuildHandler_other_failure_proceeds:
  assumes "\<not> b_isNew env" "\<not> b_decodeErr env" "\<not> b_forbidden env"
    "\<not> b_createErr env" "\<not> b_writeErr env"
    and "\<not> strings_Contains (b_modOutput env) ''go.mod already exists''"
    and "\<not> b_stdoutPipeErr env" "\<not> b_stderrPipeErr env" "\<not> b_startErr env"
  shows "spawned (trace (BuildHandler env))"
proof -
  let ?cr = "if b_ws env 0 then startBuildRet env else emptyRet"
  let ?tr = "(if b_ws env 0 then [WriteJSON (startBuildRet env)] else [])
             @ [CombinedOutput (goModCmd env)]"
  have "BuildHandler env = compileAndStream env 1 ?cr ?tr"
    using assms by (simp add: BuildHandler_def Let_def)
  then show ?thesis
    using assms(9) compileAndStream_started [of env 1 ?cr ?tr] by simp
qed

text \<open>
  Claim C1. In the module preparation, a failure whose output says that the descriptor
  already exists is tolerated and the sequence goes on to the compiler, and any other
  failure aborts with the generic failure code. The condition at line 113 of \<open>build.go\<close>
  is the other way round: with the output \<open>go.mod already exists\<close> the handler returns
  \<open>-1\<close> and never starts the compiler, and with any other output of a failed preparation
  it starts the compiler.
\<close>

theorem mod_already_exists_aborts_build:
  "result (BuildHandler (exampleBuild \<lparr> b_modErr := True,
       b_modOutput := ''go: /proj/go.mod already exists\<newline>'' \<rparr>)) = Returned (- 1)
   \<and> \<not> spawned (trace (BuildHandler (exampleBuild \<lparr> b_modErr := True,
       b_modOutput := ''go: /proj/go.mod already exists\<newline>'' \<rparr>)))
   \<and> spawned (trace (BuildHandler (exampleBuild \<lparr> b_modErr := True,
       b_modOutput := ''go: cannot determine module path\<newline>'' \<rparr>)))"
  by code_simp

text \<open>
  Claim C7. When the channel is absent at a point where the build would send, the message
  is dropped, the streaming stops without an error, the sequence still completes and the
  wait for the exit of the process is still performed. The wait is performed in every run
  (\<open>BuildHandler_spawned_waited\<close>), but the sequence does not always complete: with the
  channel absent from the first lookup of the loop on, nothing is captured, and when the
  compiler then exits with a failure the lint process panics on the empty list, after the
  wait and before any result is set.
\<close>

theorem absent_channel_failed_build_panics:
  "BuildHandler (exampleBuild \<lparr> b_ws := (\<lambda>k. False) \<rparr>)
     = \<lparr> result = Panicked IndexOutOfRange,
         trace = [CombinedOutput [''go'', ''mod'', ''tidy''],
                  Start [''go'', ''build'', ''-i''], Wait] \<rparr>"
  by code_simp

section \<open>Properties of the test handler\<close>

text \<open>
  Claim C8. When the test process was started and the channel is there at completion, the
  handler's trace has exactly one message with the command tag \<open>go test\<close>: the banner of
  a failure when the exit was not a success, the banner of a pass otherwise, followed by
  all that was captured of the two pipes, which is every byte of standard output and
  then, standard output having ended cleanly, every byte of standard error (after a read
  error on standard output nothing of standard error is read, so nothing of it is
  captured).
\<close>

theorem test_completion_message:
  assumes "spawned (trace (GoTestHandler env))" and "t_wsDone env"
  shows "withCmd ''go test'' (trace (GoTestHandler env))
     = [emptyRet \<lparr> cr_cmd := Some ''go test'',
          cr_output := Some ((if t_success env
                               then ''<span class='test-succ'>'' @ t_i18n env ''test-succ''
                               else ''<span class='test-error'>'' @ t_i18n env ''test-error'')
                             @ ''</span>\<newline>''
                             @ fst (t_stdout env)
                             @ (if snd (t_stdout env) = EOF then fst (t_stderr env) else [])) \<rparr>]"
  using assms
  by (simp add: GoTestHandler_def spawned_def withCmd_def testTask_def testDoneRet_def
      startTestRet_def emptyRet_def ReadAllMulti_def Let_def written_append split: if_splits)

text \<open>Claim C8 at the failing test run of the example.\<close>

theorem test_completion_message_witness:
  "spawned (trace (GoTestHandler exampleTest)) \<and> t_wsDone exampleTest
   \<and> withCmd ''go test'' (trace (GoTestHandler exampleTest))
     = [emptyRet \<lparr> cr_cmd := Some ''go test'',
          cr_output := Some (''<span class='test-error'>test-error</span>\<newline>''
                             @ ''--- FAIL: TestX\<newline>exit status 1\<newline>'') \<rparr>]"
proof -
  have h1: "spawned (trace (GoTestHandler exampleTest))"
    by code_simp
  have h2: "t_wsDone exampleTest"
    by (simp add: exampleTest_def)
  from test_completion_message [OF h1 h2] h1 h2 show ?thesis
    by (simp add: exampleTest_def)
qed

text \<open>
  Claim C10. When the channel is there before the start is announced and that write
  fails, the handler returns without starting the test process, and no completion message
  is written.
\<close>

theorem test_start_write_failure:
  assumes "t_wsStart env" and "t_wsStartErr env"
  shows "\<not> spawned (trace (GoTestHandler env))
       \<and> \<not> waited (trace (GoTestHandler env))
       \<and> withCmd ''go test'' (trace (GoTestHandler env)) = []"
  using assms
  by (simp add: GoTestHandler_def spawned_def waited_def withCmd_def startTestRet_def emptyRet_def)

text \<open>Claim C10 at the example, with the first write failing.\<close>

theorem test_start_write_failure_witness:
  "t_wsStart (exampleTest \<lparr> t_wsStartErr := True \<rparr>)
   \<and> t_wsStartErr (exampleTest \<lparr> t_wsStartErr := True \<rparr>)
   \<and> trace (GoTestHandler (exampleTest \<lparr> t_wsStartErr := True \<rparr>))
       = [WriteJSON (startTestRet exampleTest)]
   \<and> \<not> spawned (trace (GoTestHandler (exampleTest \<lparr> t_wsStartErr := True \<rparr>)))
   \<and> \<not> waited (trace (GoTestHandler (exampleTest \<lparr> t_wsStartErr := True \<rparr>)))
   \<and> withCmd ''go test'' (trace (GoTestHandler (exampleTest \<lparr> t_wsStartErr := True \<rparr>))) = []"
proof -
  have h1: "t_wsStart (exampleTest \<lparr> t_wsStartErr := True \<rparr>)"
    by (simp add: exampleTest_def)
  have h2: "t_wsStartErr (exampleTest \<lparr> t_wsStartErr := True \<rparr>)"
    by simp
  have t: "trace (GoTestHandler (exampleTest \<lparr> t_wsStartErr := True \<rparr>))
       = [WriteJSON (startTestRet exampleTest)]"
    by (simp add: GoTestHandler_def exampleTest_def startTestRet_def)
  from test_start_write_failure [OF h1 h2] h1 h2 t show ?thesis
    by blast
qed

end
